theory Spec2Isabelle
  imports Complex_Main "HOL-Library.Multiset" "HOL-Library.Log_Nat"
begin

section \<open>The match table\<close>

text \<open>
  \<^verbatim>\<open>app.py\<close> is one linear script over a pandas data frame \<^verbatim>\<open>df\<close> read from a CSV file.
  A text cell is a \<open>string option\<close>: \<open>None\<close> is an empty CSV cell, which pandas holds as
  NaN. The count columns (goals, attempts, assists) are columns of 64-bit integers: a
  cell is an \<open>int\<close> of the signed 64-bit range, and sums and additions of them wrap around
  as numpy's do. A float is a double: the rational it stands for, or one of the values a
  division by zero yields in numpy. Every float operation rounds its exact result to
  the nearest double, ties to the even mantissa; the two zeros of a double are not told
  apart.
\<close>

type_synonym text_cell = "string option"

datatype fval = Fin rat | PInf | NInf | NaN

text \<open>
  A possession cell is a string when the column is loaded as text (\<^verbatim>\<open>'42%'\<close>) and a
  number once line 31 to 33 have converted it; an empty cell is the number NaN, as in
  pandas.
\<close>

datatype cell = Str string | Num fval

text \<open>
  A row carries the sixteen columns the script reads, in the order of
  \<^verbatim>\<open>required_columns\<close>.
\<close>

record row =
  possession_team1 :: cell
  possession_team2 :: cell
  possession_in_contest :: cell
  number_of_goals_team1 :: int
  number_of_goals_team2 :: int
  total_attempts_team1 :: int
  total_attempts_team2 :: int
  on_target_attempts_team1 :: int
  on_target_attempts_team2 :: int
  team1 :: text_cell
  team2 :: text_cell
  date :: text_cell
  hour :: text_cell
  category :: text_cell
  assists_team1 :: int
  assists_team2 :: int

section \<open>Series operations\<close>

text \<open>
  \<^verbatim>\<open>Series.unique()\<close>: the distinct values in order of first appearance; NaN is kept,
  once.
\<close>

fun unique_from :: "'a list \<Rightarrow> 'a list \<Rightarrow> 'a list" where
  "unique_from seen [] = []"
| "unique_from seen (x # xs) =
     (if x \<in> set seen then unique_from seen xs else x # unique_from (x # seen) xs)"

definition unique :: "'a list \<Rightarrow> 'a list" where
  "unique xs = unique_from [] xs"

text \<open>
  \<^verbatim>\<open>series == value\<close>, cell by cell: a NaN cell compares unequal to everything, also to
  NaN.
\<close>

fun eq_cell :: "text_cell \<Rightarrow> text_cell \<Rightarrow> bool" where
  "eq_cell None v = False"
| "eq_cell (Some s) v = (v = Some s)"

subsection \<open>64-bit integers\<close>

text \<open>
  The value numpy keeps of an integer result: the number of the signed 64-bit range that
  is congruent to it modulo \<open>2^64\<close>.
\<close>

definition int64 :: "int \<Rightarrow> int" where
  "int64 n = (n + 9223372036854775808) mod 18446744073709551616 - 9223372036854775808"

text \<open>\<^verbatim>\<open>series.sum()\<close> of an integer column, and \<^verbatim>\<open>a + b\<close> on two numpy integers.\<close>

definition col_sum :: "('r \<Rightarrow> int) \<Rightarrow> 'r list \<Rightarrow> int" where
  "col_sum col rows = int64 (sum_list (map col rows))"

definition add64 :: "int \<Rightarrow> int \<Rightarrow> int" where
  "add64 a b = int64 (a + b)"

subsection \<open>Doubles\<close>

text \<open>Rounding to the nearest integer, ties to the even one.\<close>

definition rint :: "rat \<Rightarrow> int" where
  "rint q =
     (let f = \<lfloor>q\<rfloor>; d = q - of_int f
      in if d < 1 / 2 then f else if 1 / 2 < d then f + 1 else if even f then f else f + 1)"

text \<open>
  The double nearest to a rational: with \<open>2^e \<le> |q| < 2^(e + 1)\<close>, the multiple of
  \<open>2^(e - 52)\<close> nearest to \<open>q\<close>, ties to the even multiple. The numbers of this script stay
  far inside the exponent range of a double, so no bound on \<open>e\<close> is modelled.
\<close>

definition pow2 :: "int \<Rightarrow> rat" where
  "pow2 e = (if 0 \<le> e then 2 ^ nat e else 1 / 2 ^ nat (- e))"

definition exponent :: "rat \<Rightarrow> int" where
  "exponent q =
     (let (n, d) = quotient_of \<bar>q\<bar>; k = bitlen n - bitlen d
      in if pow2 k \<le> \<bar>q\<bar> then k else k - 1)"

definition double :: "rat \<Rightarrow> rat" where
  "double q =
     (if q = 0 then 0
      else let s = exponent q - 52 in sgn q * of_int (rint (\<bar>q\<bar> / pow2 s)) * pow2 s)"

subsection \<open>Division and rounding\<close>

text \<open>
  \<^verbatim>\<open>a / b\<close> on two numpy integers: both are converted to doubles and divided. A zero
  divisor raises nothing and yields NaN (for \<open>0 / 0\<close>) or an infinity.
\<close>

definition true_divide :: "int \<Rightarrow> int \<Rightarrow> fval" where
  "true_divide a b =
     (if b = 0 then (if a = 0 then NaN else if 0 < a then PInf else NInf)
      else Fin (double (double (of_int a) / double (of_int b))))"

text \<open>\<^verbatim>\<open>x * k\<close> on a float and a number \<open>k\<close> that is a double, such as 100.\<close>

fun fmul :: "fval \<Rightarrow> rat \<Rightarrow> fval" where
  "fmul (Fin q) k = Fin (double (q * k))"
| "fmul x k = x"

text \<open>
  \<^verbatim>\<open>round(x, 2)\<close> on a numpy float multiplies by 100, rounds to the nearest integer and
  divides by 100, each in doubles; on a numpy integer it returns the integer as it is.
\<close>

fun round2 :: "fval \<Rightarrow> fval" where
  "round2 (Fin q) = Fin (double (of_int (rint (double (q * 100))) / 100))"
| "round2 x = x"

definition round2_int :: "int \<Rightarrow> int" where
  "round2_int n = n"

section \<open>Offensive metrics per category and team (lines 35 to 55)\<close>

definition teams :: "row list \<Rightarrow> text_cell list" where
  "teams df = unique (map team1 df @ map team2 df)"

definition categories :: "row list \<Rightarrow> text_cell list" where
  "categories df = unique (map category df)"

text \<open>One row of a category's frame: \<^verbatim>\<open>[team, attempts, on_target, goals, assists]\<close>.\<close>

record metric =
  Team :: text_cell
  Total_Attempts :: int
  On_Target_pct :: fval
  Goals :: int
  Assists :: int

definition team_data :: "row list \<Rightarrow> text_cell \<Rightarrow> row list" where
  "team_data df team = filter (\<lambda>r. eq_cell (team1 r) team \<or> eq_cell (team2 r) team) df"

definition category_data :: "row list \<Rightarrow> text_cell \<Rightarrow> text_cell \<Rightarrow> row list" where
  "category_data df team cat = filter (\<lambda>r. eq_cell (category r) cat) (team_data df team)"

definition team_metrics :: "row list \<Rightarrow> text_cell \<Rightarrow> text_cell \<Rightarrow> metric" where
  "team_metrics df cat team =
     (let cd = category_data df team cat
      in if cd = [] then
           \<lparr>Team = team, Total_Attempts = 0, On_Target_pct = Fin 0, Goals = 0, Assists = 0\<rparr>
         else
           \<lparr>Team = team,
            Total_Attempts =
              round2_int (add64 (col_sum total_attempts_team1 cd) (col_sum total_attempts_team2 cd)),
            On_Target_pct =
              round2 (fmul (true_divide
                (add64 (col_sum on_target_attempts_team1 cd) (col_sum on_target_attempts_team2 cd))
                (add64 (col_sum total_attempts_team1 cd) (col_sum total_attempts_team2 cd))) 100),
            Goals =
              round2_int (add64 (col_sum number_of_goals_team1 cd) (col_sum number_of_goals_team2 cd)),
            Assists = round2_int (add64 (col_sum assists_team1 cd) (col_sum assists_team2 cd))\<rparr>)"

text \<open>
  The two nested loops: a dictionary from category to that category's frame, one metric
  row per team, in the order of \<open>teams\<close>. The keys are the distinct categories, so the
  dictionary is the association list in insertion order.
\<close>

definition category_metrics :: "row list \<Rightarrow> text_cell \<Rightarrow> metric list" where
  "category_metrics df cat = map (team_metrics df cat) (teams df)"

definition metrics :: "row list \<Rightarrow> (text_cell \<times> metric list) list" where
  "metrics df = map (\<lambda>cat. (cat, category_metrics df cat)) (categories df)"

text \<open>Reading the record of one team in one category out of the result.\<close>

definition lookup_metric ::
  "(text_cell \<times> metric list) list \<Rightarrow> text_cell \<Rightarrow> text_cell \<Rightarrow> metric option" where
  "lookup_metric m cat team =
     (case map_of m cat of None \<Rightarrow> None | Some frame \<Rightarrow> find (\<lambda>r. Team r = team) frame)"

section \<open>Example tables\<close>

text \<open>
  A match row with the given teams, category, attempts, on-target attempts, goals and
  assists (each for team 1 and team 2); the possession cells are \<open>p\<close>.
\<close>

definition match_row ::
  "cell \<Rightarrow> string \<Rightarrow> string \<Rightarrow> string \<Rightarrow> int \<times> int \<Rightarrow> int \<times> int \<Rightarrow> int \<times> int \<Rightarrow> int \<times> int \<Rightarrow> row" where
  "match_row p a b c att ont gls ast =
     \<lparr>possession_team1 = p, possession_team2 = p, possession_in_contest = p,
      number_of_goals_team1 = fst gls, number_of_goals_team2 = snd gls,
      total_attempts_team1 = fst att, total_attempts_team2 = snd att,
      on_target_attempts_team1 = fst ont, on_target_attempts_team2 = snd ont,
      team1 = Some a, team2 = Some b, date = Some ''20 NOV 2022'', hour = Some ''17 : 00'',
      category = Some c, assists_team1 = fst ast, assists_team2 = snd ast\<rparr>"

definition two_groups :: "row list" where
  "two_groups =
     [match_row (Str ''50%'') ''QATAR'' ''ECUADOR'' ''Group A'' (5, 6) (0, 3) (0, 2) (0, 1),
      match_row (Str ''50%'') ''ENGLAND'' ''IRAN'' ''Group B'' (13, 8) (7, 3) (6, 2) (6, 1)]"

definition one_in_three :: "row list" where
  "one_in_three =
     [match_row (Str ''50%'') ''QATAR'' ''ECUADOR'' ''Group A'' (3, 0) (1, 0) (0, 0) (0, 0)]"

definition no_attempts :: "row list" where
  "no_attempts =
     [match_row (Str ''50%'') ''QATAR'' ''ECUADOR'' ''Group A'' (0, 0) (0, 0) (0, 0) (0, 0)]"

section \<open>The contract of the aggregation, in the specification's words\<close>

text \<open>
  The rows of one pair: those whose category equals the category and whose team 1 or
  team 2 equals the team, with the equality of pandas.
\<close>

definition selected :: "row list \<Rightarrow> text_cell \<Rightarrow> text_cell \<Rightarrow> row list" where
  "selected df team cat =
     filter (\<lambda>r. eq_cell (category r) cat \<and> (eq_cell (team1 r) team \<or> eq_cell (team2 r) team)) df"

text \<open>
  \<open>sum(column)\<close> over rows, as a number: the exact sum, and whether a number lies in the
  signed 64-bit range.
\<close>

definition total :: "(row \<Rightarrow> int) \<Rightarrow> row list \<Rightarrow> int" where
  "total col rs = sum_list (map col rs)"

definition fits64 :: "int \<Rightarrow> bool" where
  "fits64 n \<longleftrightarrow> - 9223372036854775808 \<le> n \<and> n < 9223372036854775808"

text \<open>
  \<open>on_target_pct = 100 \<times> (on_target_team1 + on_target_team2) / (attempts_team1 +
  attempts_team2)\<close>, over the column sums of the selected rows.
\<close>

definition spec_on_target_pct :: "row list \<Rightarrow> rat" where
  "spec_on_target_pct sel =
     100 * of_int (total on_target_attempts_team1 sel + total on_target_attempts_team2 sel)
       / of_int (total total_attempts_team1 sel + total total_attempts_team2 sel)"

definition spec_record :: "row list \<Rightarrow> text_cell \<Rightarrow> text_cell \<Rightarrow> metric" where
  "spec_record df team cat =
     (let sel = selected df team cat
      in \<lparr>Team = team,
          Total_Attempts = total total_attempts_team1 sel + total total_attempts_team2 sel,
          On_Target_pct = Fin (spec_on_target_pct sel),
          Goals = total number_of_goals_team1 sel + total number_of_goals_team2 sel,
          Assists = total assists_team1 sel + total assists_team2 sel\<rparr>)"

text \<open>
  The percentage of \<open>n\<close> in \<open>d\<close> as the script computes it from two 64-bit integers: the
  quotient, its product with 100, and the rounding to two decimal places (times 100, to
  the nearest integer, by 100), every step rounded to a double.
\<close>

definition pct_in_doubles :: "int \<Rightarrow> int \<Rightarrow> rat" where
  "pct_in_doubles n d =
     (let quotient = double (double (of_int n) / double (of_int d));
          percent = double (quotient * 100);
          hundredths = rint (double (percent * 100))
      in double (of_int hundredths / 100))"

text \<open>
  The bounds of a row: on-target attempts between 0 and the attempts, goals and assists
  not negative. A percentage is a finite value between 0 and 100.
\<close>

definition attempts_bounds :: "row \<Rightarrow> bool" where
  "attempts_bounds r \<longleftrightarrow>
     0 \<le> on_target_attempts_team1 r \<and> on_target_attempts_team1 r \<le> total_attempts_team1 r \<and>
     0 \<le> on_target_attempts_team2 r \<and> on_target_attempts_team2 r \<le> total_attempts_team2 r \<and>
     0 \<le> number_of_goals_team1 r \<and> 0 \<le> number_of_goals_team2 r \<and>
     0 \<le> assists_team1 r \<and> 0 \<le> assists_team2 r"

fun is_percentage :: "fval \<Rightarrow> bool" where
  "is_percentage (Fin q) = (0 \<le> q \<and> q \<le> 100)"
| "is_percentage x = False"

definition four_matches :: "row list" where
  "four_matches =
     [match_row (Str ''64%'') ''ARGENTINA'' ''SAUDI ARABIA'' ''Group C'' (15, 3) (6, 2) (1, 2) (0, 2),
      match_row (Str ''33%'') ''POLAND'' ''ARGENTINA'' ''Group C'' (4, 25) (0, 13) (0, 2) (0, 2),
      match_row (Str ''34%'') ''FRANCE'' ''MOROCCO'' ''Semi-final'' (14, 13) (2, 3) (2, 0) (1, 0),
      match_row (Str ''46%'') ''ARGENTINA'' ''FRANCE'' ''Final'' (21, 10) (10, 5) (3, 3) (2, 1)]"

text \<open>One match with as many goals as a 64-bit integer can hold, and one more.\<close>

definition goal_flood :: "row list" where
  "goal_flood =
     [match_row (Str ''50%'') ''QATAR'' ''ECUADOR'' ''Group A'' (5, 6) (0, 3)
        (9223372036854775807, 1) (0, 1)]"

text \<open>
  The value of one field of a pair's record in the result (0 when the result has no such
  record).
\<close>

definition pair_value ::
  "(metric \<Rightarrow> int) \<Rightarrow> (text_cell \<times> metric list) list \<Rightarrow> text_cell \<Rightarrow> text_cell \<Rightarrow> int" where
  "pair_value field m cat team =
     (case lookup_metric m cat team of None \<Rightarrow> 0 | Some r \<Rightarrow> field r)"

section \<open>The aggregation with its row visits counted\<close>

text \<open>
  Lines 41 to 55 once more, run on a budget of row visits. A pandas operation reads each
  row of its operand once; a line of the loop body takes the visits of its operations
  from the budget, and the run ends without a result (\<open>None\<close>) when the budget does not
  suffice. A result comes with the budget that is left.
\<close>

type_synonym 'a budgeted = "nat \<Rightarrow> ('a \<times> nat) option"

definition returning :: "'a \<Rightarrow> 'a budgeted" where
  "returning v budget = Some (v, budget)"

text \<open>\<open>reading rs k v\<close>: the value \<open>v\<close>, computed by \<open>k\<close> operations over the rows \<open>rs\<close>.\<close>

definition reading :: "'r list \<Rightarrow> nat \<Rightarrow> 'a \<Rightarrow> 'a budgeted" where
  "reading rs k v budget =
     (if k * length rs \<le> budget then Some (v, budget - k * length rs) else None)"

definition and_then :: "'a budgeted \<Rightarrow> ('a \<Rightarrow> 'b budgeted) \<Rightarrow> 'b budgeted" where
  "and_then run continue budget =
     (case run budget of None \<Rightarrow> None | Some (v, left) \<Rightarrow> continue v left)"

text \<open>
  The loop body. Line 44: two comparisons, one \<^verbatim>\<open>|\<close> and one boolean indexing over the
  table. Line 45: a comparison and an indexing over the team's rows. Line 49: two column
  sums over the selected rows; lines 50 and 51: four; line 52: two; line 53: two.
\<close>

definition team_metrics_run :: "row list \<Rightarrow> text_cell \<Rightarrow> text_cell \<Rightarrow> metric budgeted" where
  "team_metrics_run df cat team =
     and_then (reading df 4
       (filter (\<lambda>r. eq_cell (team1 r) team \<or> eq_cell (team2 r) team) df)) (\<lambda>td.
     and_then (reading td 2 (filter (\<lambda>r. eq_cell (category r) cat) td)) (\<lambda>cd.
     if cd = [] then
       returning
         \<lparr>Team = team, Total_Attempts = 0, On_Target_pct = Fin 0, Goals = 0, Assists = 0\<rparr>
     else
       and_then (reading cd 2
         (round2_int (add64 (col_sum total_attempts_team1 cd) (col_sum total_attempts_team2 cd))))
         (\<lambda>attempts.
       and_then (reading cd 4
         (round2 (fmul (true_divide
           (add64 (col_sum on_target_attempts_team1 cd) (col_sum on_target_attempts_team2 cd))
           (add64 (col_sum total_attempts_team1 cd) (col_sum total_attempts_team2 cd))) 100)))
         (\<lambda>on_target.
       and_then (reading cd 2
         (round2_int (add64 (col_sum number_of_goals_team1 cd) (col_sum number_of_goals_team2 cd))))
         (\<lambda>goals.
       and_then (reading cd 2
         (round2_int (add64 (col_sum assists_team1 cd) (col_sum assists_team2 cd))))
         (\<lambda>assists.
       returning
         \<lparr>Team = team, Total_Attempts = attempts, On_Target_pct = on_target, Goals = goals,
          Assists = assists\<rparr>))))))"

text \<open>The loop over the teams (line 43) and the loop over the categories (line 41).\<close>

fun teams_loop :: "row list \<Rightarrow> text_cell \<Rightarrow> text_cell list \<Rightarrow> metric list budgeted" where
  "teams_loop df cat [] budget = Some ([], budget)"
| "teams_loop df cat (team # later) budget =
     (case team_metrics_run df cat team budget of
        None \<Rightarrow> None
      | Some (m, left) \<Rightarrow>
          (case teams_loop df cat later left of
             None \<Rightarrow> None
           | Some (ms, left') \<Rightarrow> Some (m # ms, left')))"

fun categories_loop ::
  "row list \<Rightarrow> text_cell list \<Rightarrow> text_cell list \<Rightarrow> (text_cell \<times> metric list) list budgeted" where
  "categories_loop df ts [] budget = Some ([], budget)"
| "categories_loop df ts (cat # later) budget =
     (case teams_loop df cat ts budget of
        None \<Rightarrow> None
      | Some (frame, left) \<Rightarrow>
          (case categories_loop df ts later left of
             None \<Rightarrow> None
           | Some (frames, left') \<Rightarrow> Some ((cat, frame) # frames, left')))"

definition metrics_run :: "row list \<Rightarrow> (text_cell \<times> metric list) list budgeted" where
  "metrics_run df = categories_loop df (teams df) (categories df)"

section \<open>The script as a sequence of stages\<close>

text \<open>
  The script runs top to bottom over its global variables; an exception ends it. A stage
  takes the state of the globals and returns the new state, together with the exception
  it raised, if any: the state returned with an exception is the state in which the script
  stopped.

  \<open>df_columns\<close> are the column names of \<^verbatim>\<open>df\<close>, \<open>df_rows\<close> its rows, \<open>df_ts\<close> the values
  of the column \<^verbatim>\<open>ts\<close> (a timestamp, or \<open>None\<close> for NaT; empty before line 11), and
  \<open>metrics_dict\<close> is the dictionary \<^verbatim>\<open>metrics\<close>, \<open>None\<close> as long as the name is not bound. A
  field of a row is read only when a column of that name is required to exist; a row of a
  file without that column holds an arbitrary value there.
\<close>

datatype error =
    KeyError string
  | DateFormatError string
  | MissingColumns "string list"
  | StrAccessorError
  | FloatError string

record csv =
  csv_columns :: "string list"
  csv_rows :: "row list"

record state =
  df_columns :: "string list"
  df_rows :: "row list"
  df_ts :: "int option list"
  metrics_dict :: "(text_cell \<times> metric list) list option"

type_synonym stage = "state \<Rightarrow> state \<times> error option"

definition then_stage :: "state \<times> error option \<Rightarrow> stage \<Rightarrow> state \<times> error option" where
  "then_stage r next_stage = (case r of (st, None) \<Rightarrow> next_stage st | (st, Some e) \<Rightarrow> (st, Some e))"

subsection \<open>Lines 10 to 17: load, parse the dates, sort, rename\<close>

definition read_csv :: "csv \<Rightarrow> state" where
  "read_csv file =
     \<lparr>df_columns = csv_columns file, df_rows = csv_rows file, df_ts = [], metrics_dict = None\<rparr>"

text \<open>
  \<^verbatim>\<open>pd.to_datetime(series, format='%d %b %Y')\<close>. The parser of one date string is the
  parameter \<open>strptime\<close> (\<open>None\<close>: the string does not match the format, which raises). An
  empty cell becomes NaT.
\<close>

fun to_datetime :: "(string \<Rightarrow> int option) \<Rightarrow> text_cell list \<Rightarrow> error + int option list" where
  "to_datetime strptime [] = Inr []"
| "to_datetime strptime (None # cells) =
     (case to_datetime strptime cells of Inl e \<Rightarrow> Inl e | Inr ts \<Rightarrow> Inr (None # ts))"
| "to_datetime strptime (Some s # cells) =
     (case strptime s of
        None \<Rightarrow> Inl (DateFormatError s)
      | Some t \<Rightarrow>
          (case to_datetime strptime cells of Inl e \<Rightarrow> Inl e | Inr ts \<Rightarrow> Inr (Some t # ts)))"

text \<open>Assigning the column \<^verbatim>\<open>ts\<close> appends its name unless the frame has it already.\<close>

definition with_ts :: "string list \<Rightarrow> string list" where
  "with_ts cols = (if ''ts'' \<in> set cols then cols else cols @ [''ts''])"

definition parse_dates :: "(string \<Rightarrow> int option) \<Rightarrow> stage" where
  "parse_dates strptime st =
     (if ''date'' \<notin> set (df_columns st) then (st, Some (KeyError ''date''))
      else case to_datetime strptime (map date (df_rows st)) of
             Inl e \<Rightarrow> (st, Some e)
           | Inr ts \<Rightarrow> (st\<lparr>df_columns := with_ts (df_columns st), df_ts := ts\<rparr>, None))"

text \<open>
  \<^verbatim>\<open>df.sort_values(by='ts')\<close>: ascending, NaT last. pandas sorts with quicksort, which
  keeps no order among rows of equal date: the sort of the rows with their timestamps is
  the parameter \<open>sort_values\<close>.
\<close>

definition sort_by_ts :: "((int option \<times> row) list \<Rightarrow> (int option \<times> row) list) \<Rightarrow> stage" where
  "sort_by_ts sort_values st =
     (let sorted = sort_values (zip (df_ts st) (df_rows st))
      in (st\<lparr>df_rows := map snd sorted, df_ts := map fst sorted\<rparr>, None))"

definition replace_spaces :: "string \<Rightarrow> string" where
  "replace_spaces name = map (\<lambda>c. if c = CHR '' '' then CHR ''_'' else c) name"

definition rename_columns :: stage where
  "rename_columns st = (st\<lparr>df_columns := map replace_spaces (df_columns st)\<rparr>, None)"

subsection \<open>Lines 19 to 28: the required columns\<close>

definition required_columns :: "string list" where
  "required_columns =
     [''possession_team1'', ''possession_team2'', ''possession_in_contest'',
      ''number_of_goals_team1'', ''number_of_goals_team2'', ''total_attempts_team1'',
      ''total_attempts_team2'', ''on_target_attempts_team1'', ''on_target_attempts_team2'',
      ''team1'', ''team2'', ''date'', ''hour'', ''category'', ''assists_team1'', ''assists_team2'']"

definition missing_columns :: "string list \<Rightarrow> string list" where
  "missing_columns cols = filter (\<lambda>col. col \<notin> set cols) required_columns"

definition check_required_columns :: stage where
  "check_required_columns st =
     (if missing_columns (df_columns st) \<noteq> []
      then (st, Some (MissingColumns (missing_columns (df_columns st))))
      else (st, None))"

subsection \<open>Lines 30 to 33: the possession columns\<close>

text \<open>\<^verbatim>\<open>s.rstrip('%')\<close>: all trailing percent signs are removed.\<close>

definition rstrip_pct :: "string \<Rightarrow> string" where
  "rstrip_pct s = rev (dropWhile (\<lambda>c. c = CHR ''%'') (rev s))"

text \<open>
  \<^verbatim>\<open>series.str.rstrip('%')\<close>. The accessor \<^verbatim>\<open>.str\<close> raises on a column that is not a text
  column: a column with rows and without any string (a column of numbers, or of empty
  cells only). In a text column a cell that is not a string becomes NaN.
\<close>

fun is_str :: "cell \<Rightarrow> bool" where
  "is_str (Str s) = True"
| "is_str (Num x) = False"

fun rstrip_cell :: "cell \<Rightarrow> cell" where
  "rstrip_cell (Str s) = Str (rstrip_pct s)"
| "rstrip_cell (Num x) = Num NaN"

definition str_rstrip :: "cell list \<Rightarrow> error + cell list" where
  "str_rstrip cells =
     (if cells \<noteq> [] \<and> \<not> list_ex is_str cells then Inl StrAccessorError
      else Inr (map rstrip_cell cells))"

text \<open>
  \<^verbatim>\<open>series.astype(float)\<close>, cell by cell: Python's \<^verbatim>\<open>float\<close> on a string is the parameter
  \<open>float\<close> (\<open>None\<close>: the string is not a number, which raises); a number stays.
\<close>

fun astype_float :: "(string \<Rightarrow> fval option) \<Rightarrow> cell list \<Rightarrow> error + fval list" where
  "astype_float float [] = Inr []"
| "astype_float float (Num x # cells) =
     (case astype_float float cells of Inl e \<Rightarrow> Inl e | Inr xs \<Rightarrow> Inr (x # xs))"
| "astype_float float (Str s # cells) =
     (case float s of
        None \<Rightarrow> Inl (FloatError s)
      | Some x \<Rightarrow>
          (case astype_float float cells of Inl e \<Rightarrow> Inl e | Inr xs \<Rightarrow> Inr (x # xs)))"

definition percent_to_float :: "(string \<Rightarrow> fval option) \<Rightarrow> cell list \<Rightarrow> error + fval list" where
  "percent_to_float float cells =
     (case str_rstrip cells of Inl e \<Rightarrow> Inl e | Inr stripped \<Rightarrow> astype_float float stripped)"

text \<open>One assignment \<^verbatim>\<open>df[col] = df[col].str.rstrip('%').astype(float)\<close>.\<close>

definition convert_column ::
  "(row \<Rightarrow> cell) \<Rightarrow> (row \<Rightarrow> cell \<Rightarrow> row) \<Rightarrow> (string \<Rightarrow> fval option) \<Rightarrow> stage" where
  "convert_column get put float st =
     (case percent_to_float float (map get (df_rows st)) of
        Inl e \<Rightarrow> (st, Some e)
      | Inr xs \<Rightarrow> (st\<lparr>df_rows := map2 (\<lambda>r x. put r (Num x)) (df_rows st) xs\<rparr>, None))"

definition preprocessing :: "(string \<Rightarrow> fval option) \<Rightarrow> stage" where
  "preprocessing float st =
     then_stage (then_stage
       (convert_column possession_team1 (\<lambda>r c. r\<lparr>possession_team1 := c\<rparr>) float st)
       (convert_column possession_team2 (\<lambda>r c. r\<lparr>possession_team2 := c\<rparr>) float))
       (convert_column possession_in_contest (\<lambda>r c. r\<lparr>possession_in_contest := c\<rparr>) float)"

subsection \<open>Lines 35 to 55 and the whole run\<close>

definition calculate_metrics :: stage where
  "calculate_metrics st = (st\<lparr>metrics_dict := Some (metrics (df_rows st))\<rparr>, None)"

definition main ::
  "(string \<Rightarrow> int option) \<Rightarrow> ((int option \<times> row) list \<Rightarrow> (int option \<times> row) list) \<Rightarrow>
   (string \<Rightarrow> fval option) \<Rightarrow> csv \<Rightarrow> state \<times> error option" where
  "main strptime sort_values float file =
     then_stage (then_stage (then_stage (then_stage (then_stage
       (parse_dates strptime (read_csv file))
       (sort_by_ts sort_values))
       rename_columns)
       check_required_columns)
       (preprocessing float))
       calculate_metrics"

subsection \<open>Stand-ins for the library functions\<close>

text \<open>
  The example runs below need the two parsers and the sort on the cells of the example
  files only. \<open>float_of_digits\<close> reads a string of decimal digits, as \<^verbatim>\<open>float\<close> does, and
  rejects every other string (\<^verbatim>\<open>float\<close> accepts more). \<open>strptime_dmy\<close> reads a two-digit day,
  an upper-case English month abbreviation and a four-digit year, as the format
  \<^verbatim>\<open>%d %b %Y\<close> does; its value is the number \<open>yyyymmdd\<close>, which orders as the dates do.
  \<open>insertion_sort\<close> sorts by timestamp, NaT last, and keeps the order of equal dates, which
  is one of the orders quicksort may return.
\<close>

fun ts_le :: "int option \<Rightarrow> int option \<Rightarrow> bool" where
  "ts_le (Some a) (Some b) = (a \<le> b)"
| "ts_le None (Some b) = False"
| "ts_le a None = True"

fun insert_by_ts :: "int option \<times> 'r \<Rightarrow> (int option \<times> 'r) list \<Rightarrow> (int option \<times> 'r) list" where
  "insert_by_ts x [] = [x]"
| "insert_by_ts x (y # ys) =
     (if ts_le (fst x) (fst y) then x # y # ys else y # insert_by_ts x ys)"

definition insertion_sort :: "(int option \<times> 'r) list \<Rightarrow> (int option \<times> 'r) list" where
  "insertion_sort xs = foldr insert_by_ts xs []"

definition digit_of :: "char \<Rightarrow> int option" where
  "digit_of c = (let n = (of_char c :: int) in if 48 \<le> n \<and> n \<le> 57 then Some (n - 48) else None)"

fun number_from :: "int \<Rightarrow> string \<Rightarrow> int option" where
  "number_from n [] = Some n"
| "number_from n (c # cs) =
     (case digit_of c of None \<Rightarrow> None | Some d \<Rightarrow> number_from (10 * n + d) cs)"

definition number_of :: "string \<Rightarrow> int option" where
  "number_of s = (if s = [] then None else number_from 0 s)"

definition float_of_digits :: "string \<Rightarrow> fval option" where
  "float_of_digits s = map_option (\<lambda>n. Fin (of_int n)) (number_of s)"

definition month_of :: "string \<Rightarrow> int option" where
  "month_of s =
     map_of [(''JAN'', 1), (''FEB'', 2), (''MAR'', 3), (''APR'', 4), (''MAY'', 5), (''JUN'', 6),
             (''JUL'', 7), (''AUG'', 8), (''SEP'', 9), (''OCT'', 10), (''NOV'', 11), (''DEC'', 12)] s"

definition days_in :: "int \<Rightarrow> int \<Rightarrow> int" where
  "days_in y m =
     (if m = 2 then (if y mod 4 = 0 \<and> (y mod 100 \<noteq> 0 \<or> y mod 400 = 0) then 29 else 28)
      else if m = 4 \<or> m = 6 \<or> m = 9 \<or> m = 11 then 30 else 31)"

definition strptime_dmy :: "string \<Rightarrow> int option" where
  "strptime_dmy s =
     (if length s = 11 \<and> s ! 2 = CHR '' '' \<and> s ! 6 = CHR '' '' then
        (case (number_of (take 2 s), month_of (take 3 (drop 3 s)), number_of (drop 7 s)) of
           (Some d, Some m, Some y) \<Rightarrow>
             if 1 \<le> d \<and> d \<le> days_in y m then Some (y * 10000 + m * 100 + d) else None
         | _ \<Rightarrow> None)
      else None)"

subsection \<open>Example files\<close>

text \<open>
  The header of the data set, as the file spells it, and files with that header less one
  or two columns.
\<close>

definition fifa_header :: "string list" where
  "fifa_header =
     [''team1'', ''team2'', ''possession team1'', ''possession team2'', ''possession in contest'',
      ''number of goals team1'', ''number of goals team2'', ''date'', ''hour'', ''category'',
      ''total attempts team1'', ''total attempts team2'', ''on target attempts team1'',
      ''on target attempts team2'', ''assists team1'', ''assists team2'']"

definition fifa_file :: csv where
  "fifa_file = \<lparr>csv_columns = fifa_header, csv_rows = two_groups\<rparr>"

definition file_without_date :: csv where
  "file_without_date = \<lparr>csv_columns = remove1 ''date'' fifa_header, csv_rows = two_groups\<rparr>"

definition file_without_date_and_hour :: csv where
  "file_without_date_and_hour =
     \<lparr>csv_columns = remove1 ''hour'' (remove1 ''date'' fifa_header), csv_rows = two_groups\<rparr>"

definition file_without_hour :: csv where
  "file_without_hour = \<lparr>csv_columns = remove1 ''hour'' fifa_header, csv_rows = two_groups\<rparr>"

text \<open>Two matches; the second has no possession figure for team 1.\<close>

definition possession_gap :: "row list" where
  "possession_gap =
     [match_row (Str ''42%'') ''QATAR'' ''ECUADOR'' ''Group A'' (5, 6) (0, 3) (0, 2) (0, 1),
      (match_row (Str ''58%'') ''ENGLAND'' ''IRAN'' ''Group B'' (13, 8) (7, 3) (6, 2) (6, 1))
        \<lparr>possession_team1 := Num NaN\<rparr>]"

text \<open>The state after line 17 of a file with the data set's header and the given rows.\<close>

definition loaded :: "row list \<Rightarrow> state" where
  "loaded rs =
     \<lparr>df_columns = map replace_spaces fifa_header @ [''ts''], df_rows = rs,
      df_ts = map (\<lambda>r. None) rs, metrics_dict = None\<rparr>"

section \<open>The contract of the preprocessing step\<close>

text \<open>
  In the specification's words: a value that is a string whose form without trailing
  percent signs parses as a float.
\<close>

fun percent_string :: "(string \<Rightarrow> fval option) \<Rightarrow> cell \<Rightarrow> bool" where
  "percent_string float (Str s) = (float (rstrip_pct s) \<noteq> None)"
| "percent_string float (Num x) = False"

text \<open>
  What the script asks of a column: it has no rows or holds at least one string, and
  every string in it parses once stripped. Cells that are not strings do not matter.
\<close>

fun parses :: "(string \<Rightarrow> fval option) \<Rightarrow> cell \<Rightarrow> bool" where
  "parses float (Str s) = (float (rstrip_pct s) \<noteq> None)"
| "parses float (Num x) = True"

definition convertible :: "(string \<Rightarrow> fval option) \<Rightarrow> cell list \<Rightarrow> bool" where
  "convertible float cells \<longleftrightarrow>
     (cells = [] \<or> list_ex is_str cells) \<and> list_all (parses float) cells"

text \<open>The value of a converted cell: the parsed number, NaN for a cell that is no string.\<close>

fun converted :: "(string \<Rightarrow> fval option) \<Rightarrow> cell \<Rightarrow> fval" where
  "converted float (Str s) = (case float (rstrip_pct s) of Some x \<Rightarrow> x | None \<Rightarrow> NaN)"
| "converted float (Num x) = NaN"

definition possession_converted :: "(string \<Rightarrow> fval option) \<Rightarrow> row \<Rightarrow> row" where
  "possession_converted float r =
     r\<lparr>possession_team1 := Num (converted float (possession_team1 r)),
       possession_team2 := Num (converted float (possession_team2 r)),
       possession_in_contest := Num (converted float (possession_in_contest r))\<rparr>"

section \<open>Properties of the series operations\<close>

lemma set_unique_from: "set (unique_from seen xs) = set xs - set seen"
  by (induction xs arbitrary: seen) auto

lemma distinct_unique_from: "distinct (unique_from seen xs)"
  by (induction xs arbitrary: seen) (auto simp: set_unique_from)

lemma set_unique: "set (unique xs) = set xs"
  by (simp add: unique_def set_unique_from)

lemma distinct_unique: "distinct (unique xs)"
  by (simp add: unique_def distinct_unique_from)

lemma set_teams: "set (teams df) = team1 ` set df \<union> team2 ` set df"
  by (simp add: teams_def set_unique)

lemma set_categories: "set (categories df) = category ` set df"
  by (simp add: categories_def set_unique)

lemma eq_cell_Some: "eq_cell c (Some s) \<longleftrightarrow> c = Some s"
  by (cases c) auto

lemma eq_cell_eq: "eq_cell c v \<Longrightarrow> c = v"
  by (cases c) auto

section \<open>Reading the result\<close>

lemma Team_team_metrics: "Team (team_metrics df cat team) = team"
  by (simp add: team_metrics_def Let_def)

lemma find_Team_map:
  "team \<in> set ts \<Longrightarrow>
   find (\<lambda>r. Team r = team) (map (team_metrics df cat) ts) = Some (team_metrics df cat team)"
  by (induction ts) (auto simp: Team_team_metrics)

lemma map_of_metrics:
  "cat \<in> set (categories df) \<Longrightarrow> map_of (metrics df) cat = Some (category_metrics df cat)"
  unfolding metrics_def by (induction "categories df") (auto simp: map_of_map_restrict image_iff)

lemma lookup_metric_metrics:
  "cat \<in> set (categories df) \<Longrightarrow> team \<in> set (teams df) \<Longrightarrow>
   lookup_metric (metrics df) cat team = Some (team_metrics df cat team)"
  by (simp add: lookup_metric_def map_of_metrics category_metrics_def find_Team_map)

text \<open>The rows the two filters of lines 44 and 45 keep, as one filter.\<close>

lemma category_data_filter:
  "category_data df team cat =
     filter (\<lambda>r. eq_cell (category r) cat \<and> (eq_cell (team1 r) team \<or> eq_cell (team2 r) team)) df"
  by (simp add: category_data_def team_data_def conj_commute)

section \<open>Pairs without a match\<close>

text \<open>
  C3. For a team and a category of the table such that no row has that category and
  involves that team (as team 1 or as team 2), the record the aggregation produces for the
  pair is all zero: total attempts, on-target percentage, goals and assists are 0.
\<close>

theorem no_match_all_zero:
  assumes "team \<in> team1 ` set df \<union> team2 ` set df"
    and "cat \<in> category ` set df"
    and "\<forall>r \<in> set df.
           \<not> (eq_cell (category r) cat \<and> (eq_cell (team1 r) team \<or> eq_cell (team2 r) team))"
  shows "lookup_metric (metrics df) cat team =
           Some \<lparr>Team = team, Total_Attempts = 0, On_Target_pct = Fin 0, Goals = 0, Assists = 0\<rparr>"
proof -
  have "category_data df team cat = []"
    using assms(3) by (simp add: category_data_filter filter_empty_conv)
  then have "team_metrics df cat team =
      \<lparr>Team = team, Total_Attempts = 0, On_Target_pct = Fin 0, Goals = 0, Assists = 0\<rparr>"
    by (simp add: team_metrics_def)
  moreover have "lookup_metric (metrics df) cat team = Some (team_metrics df cat team)"
    using assms(1,2) by (simp add: lookup_metric_metrics set_teams set_categories)
  ultimately show ?thesis by simp
qed

theorem no_match_all_zero_witness:
  "Some ''QATAR'' \<in> team1 ` set two_groups \<union> team2 ` set two_groups \<and>
   Some ''Group B'' \<in> category ` set two_groups \<and>
   lookup_metric (metrics two_groups) (Some ''Group B'') (Some ''QATAR'') =
     Some \<lparr>Team = Some ''QATAR'', Total_Attempts = 0, On_Target_pct = Fin 0, Goals = 0,
           Assists = 0\<rparr>"
proof -
  have t: "Some ''QATAR'' \<in> team1 ` set two_groups \<union> team2 ` set two_groups"
    by (simp add: two_groups_def match_row_def)
  have c: "Some ''Group B'' \<in> category ` set two_groups"
    by (simp add: two_groups_def match_row_def)
  have n: "\<forall>r \<in> set two_groups.
      \<not> (eq_cell (category r) (Some ''Group B'') \<and>
         (eq_cell (team1 r) (Some ''QATAR'') \<or> eq_cell (team2 r) (Some ''QATAR'')))"
    by (simp add: two_groups_def match_row_def)
  show ?thesis using t c no_match_all_zero [OF t c n] by simp
qed

section \<open>The record of a pair\<close>

lemma int64_fits: "fits64 n \<Longrightarrow> int64 n = n"
  by (simp add: fits64_def int64_def)

lemma int64_add_left: "int64 (int64 a + b) = int64 (a + b)"
proof -
  have "int64 a + b + 9223372036854775808 =
      (a + 9223372036854775808) mod 18446744073709551616 + b"
    by (simp add: int64_def)
  then have "(int64 a + b + 9223372036854775808) mod 18446744073709551616 =
      ((a + 9223372036854775808) mod 18446744073709551616 + b) mod 18446744073709551616"
    by (simp only:)
  also have "\<dots> = (a + 9223372036854775808 + b) mod 18446744073709551616"
    by (rule mod_add_left_eq)
  also have "a + 9223372036854775808 + b = a + b + 9223372036854775808"
    by simp
  finally show ?thesis
    by (simp only: int64_def)
qed

lemma int64_add: "int64 (int64 a + int64 b) = int64 (a + b)"
  by (metis int64_add_left add.commute)

lemma add64_col_sum: "add64 (col_sum f rs) (col_sum g rs) = int64 (total f rs + total g rs)"
  by (simp add: add64_def col_sum_def total_def int64_add)

lemma total_Nil: "total f [] = 0"
  by (simp add: total_def)

lemma int64_0: "int64 0 = 0"
  by (simp add: int64_def)

lemma pct_in_doubles_eq:
  "d \<noteq> 0 \<Longrightarrow> round2 (fmul (true_divide n d) 100) = Fin (pct_in_doubles n d)"
  by (simp add: true_divide_def pct_in_doubles_def Let_def)

text \<open>
  C1, as the specification states it, fails: the script rounds the percentage to two
  decimal places. With one on-target attempt out of three the record holds the double
  33.33, not 100/3.
\<close>

theorem on_target_exact_counterexample:
  "lookup_metric (metrics one_in_three) (Some ''Group A'') (Some ''QATAR'')
     \<noteq> Some (spec_record one_in_three (Some ''QATAR'') (Some ''Group A''))"
proof -
  have "lookup_metric (metrics one_in_three) (Some ''Group A'') (Some ''QATAR'') =
      Some (team_metrics one_in_three (Some ''Group A'') (Some ''QATAR''))"
    by (rule lookup_metric_metrics)
      (simp_all add: set_categories set_teams one_in_three_def match_row_def)
  moreover have "On_Target_pct (team_metrics one_in_three (Some ''Group A'') (Some ''QATAR'')) \<noteq>
      On_Target_pct (spec_record one_in_three (Some ''QATAR'') (Some ''Group A''))"
    by code_simp
  ultimately show ?thesis
    by auto
qed

text \<open>
  C1, amended. For every team of column team1 or team2 and every category of the table
  the aggregation produces a record for the pair, computed over exactly the selected rows:
  total attempts, goals and assists are the sums of the two columns in 64-bit integers
  (so the exact sums whenever these lie in the signed 64-bit range); the on-target
  percentage is 0 when no row is selected, and when the total attempts of the record are
  not 0 it is the quotient of the two sums times 100, rounded to two decimal places, as
  doubles compute it.
\<close>

theorem record_of_pair:
  assumes "team \<in> team1 ` set df \<union> team2 ` set df" and "cat \<in> category ` set df"
  shows "\<exists>m. lookup_metric (metrics df) cat team = Some m \<and> Team m = team \<and>
     Total_Attempts m = int64 (Total_Attempts (spec_record df team cat)) \<and>
     Goals m = int64 (Goals (spec_record df team cat)) \<and>
     Assists m = int64 (Assists (spec_record df team cat)) \<and>
     (selected df team cat = [] \<longrightarrow> On_Target_pct m = Fin 0) \<and>
     (Total_Attempts m \<noteq> 0 \<longrightarrow>
        On_Target_pct m =
          Fin (pct_in_doubles
            (int64 (total on_target_attempts_team1 (selected df team cat) +
                    total on_target_attempts_team2 (selected df team cat)))
            (Total_Attempts m)))"
proof -
  let ?m = "team_metrics df cat team"
  let ?sel = "selected df team cat"
  have l: "lookup_metric (metrics df) cat team = Some ?m"
    using assms by (simp add: lookup_metric_metrics set_teams set_categories)
  have s: "category_data df team cat = ?sel"
    by (simp add: category_data_filter selected_def)
  have "Team ?m = team"
    by (rule Team_team_metrics)
  moreover have t: "Total_Attempts ?m = int64 (Total_Attempts (spec_record df team cat))"
    by (simp add: team_metrics_def spec_record_def Let_def s total_Nil int64_0 round2_int_def
        add64_col_sum)
  moreover have "Goals ?m = int64 (Goals (spec_record df team cat))"
    by (simp add: team_metrics_def spec_record_def Let_def s total_Nil int64_0 round2_int_def
        add64_col_sum)
  moreover have "Assists ?m = int64 (Assists (spec_record df team cat))"
    by (simp add: team_metrics_def spec_record_def Let_def s total_Nil int64_0 round2_int_def
        add64_col_sum)
  moreover have "?sel = [] \<longrightarrow> On_Target_pct ?m = Fin 0"
    by (simp add: team_metrics_def Let_def s)
  moreover have "Total_Attempts ?m \<noteq> 0 \<longrightarrow>
      On_Target_pct ?m =
        Fin (pct_in_doubles
          (int64 (total on_target_attempts_team1 ?sel + total on_target_attempts_team2 ?sel))
          (Total_Attempts ?m))"
  proof
    assume n: "Total_Attempts ?m \<noteq> 0"
    then have ne: "?sel \<noteq> []"
      by (auto simp: team_metrics_def Let_def s)
    have d: "add64 (col_sum total_attempts_team1 ?sel) (col_sum total_attempts_team2 ?sel) =
        Total_Attempts ?m"
      using ne by (simp add: team_metrics_def Let_def s round2_int_def)
    have "On_Target_pct ?m =
        round2 (fmul (true_divide
          (add64 (col_sum on_target_attempts_team1 ?sel) (col_sum on_target_attempts_team2 ?sel))
          (Total_Attempts ?m)) 100)"
      using ne by (simp add: team_metrics_def Let_def s d [symmetric] round2_int_def)
    also have "\<dots> = Fin (pct_in_doubles
          (add64 (col_sum on_target_attempts_team1 ?sel) (col_sum on_target_attempts_team2 ?sel))
          (Total_Attempts ?m))"
      using n by (rule pct_in_doubles_eq)
    finally show "On_Target_pct ?m =
        Fin (pct_in_doubles
          (int64 (total on_target_attempts_team1 ?sel + total on_target_attempts_team2 ?sel))
          (Total_Attempts ?m))"
      by (simp only: add64_col_sum)
  qed
  ultimately show ?thesis using l by blast
qed

theorem record_of_pair_witness:
  "\<exists>m. lookup_metric (metrics two_groups) (Some ''Group A'') (Some ''ECUADOR'') = Some m \<and>
     Team m = Some ''ECUADOR'' \<and> Total_Attempts m = 11 \<and> Goals m = 2 \<and> Assists m = 1 \<and>
     On_Target_pct m = Fin (double (2727 / 100))"
proof -
  have t: "Some ''ECUADOR'' \<in> team1 ` set two_groups \<union> team2 ` set two_groups"
    by (simp add: two_groups_def match_row_def)
  have c: "Some ''Group A'' \<in> category ` set two_groups"
    by (simp add: two_groups_def match_row_def)
  have r: "spec_record two_groups (Some ''ECUADOR'') (Some ''Group A'') =
      \<lparr>Team = Some ''ECUADOR'', Total_Attempts = 11, On_Target_pct = Fin (300 / 11), Goals = 2,
       Assists = 1\<rparr>"
    by code_simp
  have i: "int64 11 = 11" "int64 2 = 2" "int64 1 = 1"
    by (simp_all add: int64_def)
  have o: "int64 (total on_target_attempts_team1 (selected two_groups (Some ''ECUADOR'') (Some ''Group A'')) +
      total on_target_attempts_team2 (selected two_groups (Some ''ECUADOR'') (Some ''Group A''))) = 3"
    by code_simp
  have p: "pct_in_doubles 3 11 = double (2727 / 100)"
    by code_simp
  from record_of_pair [OF t c] show ?thesis
    unfolding r o by (auto simp: i p)
qed

section \<open>A selection without attempts\<close>

text \<open>
  C2 asks that the division of the on-target percentage never has a zero denominator.
  The script guards the empty selection only. One match in which neither team attempted a
  shot is a selection that is not empty and whose attempts sum to 0: the division of
  line 50 divides 0 by 0 and the record holds NaN.
\<close>

theorem zero_denominator_division:
  "category_data no_attempts (Some ''QATAR'') (Some ''Group A'') \<noteq> [] \<and>
   col_sum total_attempts_team1 (category_data no_attempts (Some ''QATAR'') (Some ''Group A'')) +
   col_sum total_attempts_team2 (category_data no_attempts (Some ''QATAR'') (Some ''Group A'')) = 0 \<and>
   lookup_metric (metrics no_attempts) (Some ''Group A'') (Some ''QATAR'') =
     Some \<lparr>Team = Some ''QATAR'', Total_Attempts = 0, On_Target_pct = NaN, Goals = 0, Assists = 0\<rparr>"
  by code_simp

text \<open>
  C8 asks that every on-target percentage lies between 0 and 100 when the rows satisfy
  the bounds. The same table satisfies the bounds, and its records hold NaN in place of a
  percentage.
\<close>

theorem percentage_out_of_range:
  "list_all attempts_bounds no_attempts \<and>
   \<not> list_all (\<lambda>(cat, frame). list_all (\<lambda>m. is_percentage (On_Target_pct m)) frame)
       (metrics no_attempts)"
  by code_simp

section \<open>Categories partition the statistics\<close>

lemma sum_list_delta:
  fixes v :: int
  shows "distinct ks \<Longrightarrow> k \<in> set ks \<Longrightarrow> (\<Sum>c\<leftarrow>ks. if c = k then v else 0) = v"
proof (induction ks)
  case Nil
  then show ?case by simp
next
  case (Cons a ks)
  show ?case
  proof (cases "a = k")
    case True
    with Cons.prems have "k \<notin> set ks" by simp
    then have "(\<Sum>c\<leftarrow>ks. if c = k then v else 0) = 0"
      by (induction ks) auto
    with True show ?thesis by simp
  next
    case False
    with Cons show ?thesis by simp
  qed
qed

lemma sum_over_keys:
  fixes f :: "'r \<Rightarrow> int"
  assumes "distinct ks" and "\<forall>x\<in>set xs. key x \<noteq> None \<and> key x \<in> set ks"
  shows "(\<Sum>c\<leftarrow>ks. sum_list (map f (filter (\<lambda>x. eq_cell (key x) c) xs))) = sum_list (map f xs)"
  using assms(2)
proof (induction xs)
  case Nil
  then show ?case by simp
next
  case (Cons x xs)
  then obtain s where s: "key x = Some s" "Some s \<in> set ks" by auto
  have "(\<Sum>c\<leftarrow>ks. sum_list (map f (filter (\<lambda>x. eq_cell (key x) c) (x # xs))))
      = (\<Sum>c\<leftarrow>ks. (if c = Some s then f x else 0) + sum_list (map f (filter (\<lambda>x. eq_cell (key x) c) xs)))"
    by (rule arg_cong [where f = sum_list], rule map_cong) (auto simp: s)
  also have "\<dots> = (\<Sum>c\<leftarrow>ks. if c = Some s then f x else 0)
      + (\<Sum>c\<leftarrow>ks. sum_list (map f (filter (\<lambda>x. eq_cell (key x) c) xs)))"
    by (simp add: sum_list_addf)
  also have "\<dots> = f x + sum_list (map f xs)"
    using Cons assms(1) s by (simp add: sum_list_delta)
  finally show ?case by simp
qed

lemma total_category_data:
  assumes "\<forall>r\<in>set df. category r \<noteq> None"
  shows "(\<Sum>cat\<leftarrow>categories df. total f (category_data df team cat)) = total f (team_data df team)"
proof -
  have "\<forall>r\<in>set (team_data df team). category r \<noteq> None \<and> category r \<in> set (categories df)"
    using assms by (auto simp: team_data_def set_categories)
  then show ?thesis
    unfolding total_def category_data_def
    by (intro sum_over_keys) (simp_all add: categories_def distinct_unique)
qed

lemma fields_team_metrics:
  "Total_Attempts (team_metrics df cat team) =
     int64 (total total_attempts_team1 (category_data df team cat) +
            total total_attempts_team2 (category_data df team cat))"
  "Goals (team_metrics df cat team) =
     int64 (total number_of_goals_team1 (category_data df team cat) +
            total number_of_goals_team2 (category_data df team cat))"
  "Assists (team_metrics df cat team) =
     int64 (total assists_team1 (category_data df team cat) +
            total assists_team2 (category_data df team cat))"
  by (simp_all add: team_metrics_def Let_def round2_int_def add64_col_sum total_Nil int64_0)

lemma pair_value_metrics:
  assumes "team \<in> set (teams df)"
  shows "(\<Sum>cat\<leftarrow>categories df. pair_value field (metrics df) cat team)
       = (\<Sum>cat\<leftarrow>categories df. field (team_metrics df cat team))"
  by (rule arg_cong [where f = sum_list], rule map_cong)
     (simp_all add: pair_value_def lookup_metric_metrics assms)

lemma sum_of_fitting:
  assumes "\<forall>c\<in>set cs. fits64 (f c + g c)"
  shows "(\<Sum>c\<leftarrow>cs. int64 (f c + g c)) = sum_list (map f cs) + sum_list (map g cs)"
  using assms by (induction cs) (simp_all add: int64_fits)

text \<open>
  C6, as the specification states it, fails: a record holds a 64-bit sum. One match with
  \<open>2^63 - 1\<close> goals for one team and one goal for the other has a category, and the goals
  of the only record of a team are \<open>- 2^63\<close>, while the goals of the rows that involve the
  team sum to \<open>2^63\<close>.
\<close>

theorem goal_flood_counterexample:
  "list_all (\<lambda>r. category r \<noteq> None) goal_flood \<and>
   (\<Sum>cat\<leftarrow>categories goal_flood. pair_value Goals (metrics goal_flood) cat (Some ''QATAR'')) =
     - 9223372036854775808 \<and>
   total number_of_goals_team1 (team_data goal_flood (Some ''QATAR'')) +
   total number_of_goals_team2 (team_data goal_flood (Some ''QATAR'')) = 9223372036854775808"
proof -
  have c: "categories goal_flood = [Some ''Group A'']"
    by code_simp
  have t: "Some ''QATAR'' \<in> set (teams goal_flood)"
    by (simp add: set_teams goal_flood_def match_row_def)
  have g: "Goals (team_metrics goal_flood (Some ''Group A'') (Some ''QATAR'')) =
      - 9223372036854775808"
    unfolding fields_team_metrics by code_simp
  have "(\<Sum>cat\<leftarrow>categories goal_flood.
      pair_value Goals (metrics goal_flood) cat (Some ''QATAR'')) = - 9223372036854775808"
    by (simp only: pair_value_metrics [OF t]) (simp add: c g)
  moreover have "list_all (\<lambda>r. category r \<noteq> None) goal_flood"
    by (simp add: goal_flood_def match_row_def)
  moreover have "total number_of_goals_team1 (team_data goal_flood (Some ''QATAR'')) +
      total number_of_goals_team2 (team_data goal_flood (Some ''QATAR'')) = 9223372036854775808"
    by code_simp
  ultimately show ?thesis
    by simp
qed

text \<open>
  C6, amended. In a table in which every row carries a category, for every team of the
  table for which no category's sum of goals, of total attempts or of assists leaves the
  signed 64-bit range, the goals (and the total attempts, and the assists) of the team's
  records, summed over all distinct categories, equal the sum over all rows that involve
  the team; and each row that involves the team is selected for exactly one category's
  record of the team.
\<close>

theorem categories_partition:
  assumes "\<forall>r\<in>set df. category r \<noteq> None" and "team \<in> team1 ` set df \<union> team2 ` set df"
    and "\<forall>cat\<in>set (categories df).
           fits64 (Goals (spec_record df team cat)) \<and>
           fits64 (Total_Attempts (spec_record df team cat)) \<and>
           fits64 (Assists (spec_record df team cat))"
  shows "(\<Sum>cat\<leftarrow>categories df. pair_value Goals (metrics df) cat team) =
           total number_of_goals_team1 (team_data df team) +
           total number_of_goals_team2 (team_data df team) \<and>
         (\<Sum>cat\<leftarrow>categories df. pair_value Total_Attempts (metrics df) cat team) =
           total total_attempts_team1 (team_data df team) +
           total total_attempts_team2 (team_data df team) \<and>
         (\<Sum>cat\<leftarrow>categories df. pair_value Assists (metrics df) cat team) =
           total assists_team1 (team_data df team) + total assists_team2 (team_data df team) \<and>
         (\<forall>r\<in>set (team_data df team).
            \<exists>!cat. cat \<in> set (categories df) \<and> r \<in> set (selected df team cat))"
proof -
  have t: "team \<in> set (teams df)"
    using assms(2) by (simp add: set_teams)
  have s: "selected df team cat = category_data df team cat" for cat
    by (simp add: category_data_filter selected_def)
  note c = total_category_data [OF assms(1), of _ team]
  have g: "\<forall>cat\<in>set (categories df).
      fits64 (total number_of_goals_team1 (category_data df team cat) +
              total number_of_goals_team2 (category_data df team cat))"
    using assms(3) by (simp add: spec_record_def Let_def s)
  have a: "\<forall>cat\<in>set (categories df).
      fits64 (total total_attempts_team1 (category_data df team cat) +
              total total_attempts_team2 (category_data df team cat))"
    using assms(3) by (simp add: spec_record_def Let_def s)
  have h: "\<forall>cat\<in>set (categories df).
      fits64 (total assists_team1 (category_data df team cat) +
              total assists_team2 (category_data df team cat))"
    using assms(3) by (simp add: spec_record_def Let_def s)
  have "(\<Sum>cat\<leftarrow>categories df. pair_value Goals (metrics df) cat team) =
      total number_of_goals_team1 (team_data df team) + total number_of_goals_team2 (team_data df team)"
    by (simp only: pair_value_metrics [OF t] fields_team_metrics sum_of_fitting [OF g] c)
  moreover have "(\<Sum>cat\<leftarrow>categories df. pair_value Total_Attempts (metrics df) cat team) =
      total total_attempts_team1 (team_data df team) + total total_attempts_team2 (team_data df team)"
    by (simp only: pair_value_metrics [OF t] fields_team_metrics sum_of_fitting [OF a] c)
  moreover have "(\<Sum>cat\<leftarrow>categories df. pair_value Assists (metrics df) cat team) =
      total assists_team1 (team_data df team) + total assists_team2 (team_data df team)"
    by (simp only: pair_value_metrics [OF t] fields_team_metrics sum_of_fitting [OF h] c)
  moreover have "\<exists>!cat. cat \<in> set (categories df) \<and> r \<in> set (selected df team cat)"
    if r: "r \<in> set (team_data df team)" for r
  proof -
    from r have m: "r \<in> set df" and i: "eq_cell (team1 r) team \<or> eq_cell (team2 r) team"
      by (auto simp: team_data_def)
    from m assms(1) obtain s where s: "category r = Some s" by auto
    show ?thesis
    proof (rule ex1I [of _ "category r"])
      have "category r \<in> set (categories df)"
        using m by (simp add: set_categories)
      moreover have "r \<in> set (selected df team (category r))"
        using m i s by (simp add: selected_def)
      ultimately show "category r \<in> set (categories df) \<and> r \<in> set (selected df team (category r))"
        by simp
    next
      fix cat assume "cat \<in> set (categories df) \<and> r \<in> set (selected df team cat)"
      then show "cat = category r"
        by (auto simp: selected_def dest: eq_cell_eq)
    qed
  qed
  ultimately show ?thesis by blast
qed

theorem categories_partition_witness:
  "(\<Sum>cat\<leftarrow>categories four_matches.
      pair_value Goals (metrics four_matches) cat (Some ''ARGENTINA'')) = 11 \<and>
   total number_of_goals_team1 (team_data four_matches (Some ''ARGENTINA'')) +
   total number_of_goals_team2 (team_data four_matches (Some ''ARGENTINA'')) = 11 \<and>
   categories four_matches = [Some ''Group C'', Some ''Semi-final'', Some ''Final'']"
proof -
  have h: "\<forall>r\<in>set four_matches. category r \<noteq> None"
    by (simp add: four_matches_def match_row_def)
  have t: "Some ''ARGENTINA'' \<in> team1 ` set four_matches \<union> team2 ` set four_matches"
    by (simp add: four_matches_def match_row_def)
  have c: "categories four_matches = [Some ''Group C'', Some ''Semi-final'', Some ''Final'']"
    by code_simp
  have f: "\<forall>cat\<in>set (categories four_matches).
           fits64 (Goals (spec_record four_matches (Some ''ARGENTINA'') cat)) \<and>
           fits64 (Total_Attempts (spec_record four_matches (Some ''ARGENTINA'') cat)) \<and>
           fits64 (Assists (spec_record four_matches (Some ''ARGENTINA'') cat))"
    unfolding c by code_simp
  have v: "total number_of_goals_team1 (team_data four_matches (Some ''ARGENTINA'')) +
      total number_of_goals_team2 (team_data four_matches (Some ''ARGENTINA'')) = 11"
    by code_simp
  from categories_partition [OF h t f] v c show ?thesis
    by simp
qed

section \<open>The order of the rows\<close>

lemma lookup_metric_outside:
  assumes "cat \<notin> set (categories df) \<or> team \<notin> set (teams df)"
  shows "lookup_metric (metrics df) cat team = None"
proof (cases "cat \<in> set (categories df)")
  case False
  then have "map_of (metrics df) cat = None"
    by (simp add: map_of_eq_None_iff metrics_def image_image)
  then show ?thesis by (simp add: lookup_metric_def)
next
  case True
  with assms have "team \<notin> set (teams df)" by simp
  then have "find (\<lambda>r. Team r = team) (category_metrics df cat) = None"
    by (auto simp: find_None_iff category_metrics_def Team_team_metrics)
  with True show ?thesis by (simp add: lookup_metric_def map_of_metrics)
qed

lemma col_sum_mset: "mset xs = mset ys \<Longrightarrow> col_sum f xs = col_sum f ys"
proof -
  assume "mset xs = mset ys"
  then have "sum_mset (image_mset f (mset xs)) = sum_mset (image_mset f (mset ys))" by simp
  then show ?thesis
    unfolding col_sum_def by (simp only: mset_map [symmetric] sum_mset_sum_list)
qed

lemma category_data_mset:
  "mset df' = mset df \<Longrightarrow> mset (category_data df' team cat) = mset (category_data df team cat)"
  by (simp add: category_data_def team_data_def)

lemma team_metrics_mset:
  assumes "mset df' = mset df"
  shows "team_metrics df' cat team = team_metrics df cat team"
proof -
  note m = category_data_mset [OF assms, of team cat]
  have e: "category_data df' team cat = [] \<longleftrightarrow> category_data df team cat = []"
    using m by (metis mset_zero_iff)
  show ?thesis
    unfolding team_metrics_def Let_def
    by (simp add: e col_sum_mset [OF m])
qed

text \<open>
  C9. The aggregated metrics do not depend on the order of the rows: for every table and
  every reordering of its rows (the sort by date of line 14 is one), the record of every
  team and category is the same, and a pair without a record stays without one.
\<close>

theorem row_order_irrelevant:
  assumes "mset df' = mset df"
  shows "lookup_metric (metrics df') cat team = lookup_metric (metrics df) cat team"
proof -
  have s: "set df' = set df"
    using assms by (rule mset_eq_setD)
  have t: "set (teams df') = set (teams df)" and c: "set (categories df') = set (categories df)"
    by (simp_all add: set_teams set_categories s)
  show ?thesis
  proof (cases "cat \<in> set (categories df) \<and> team \<in> set (teams df)")
    case True
    then show ?thesis
      by (simp add: lookup_metric_metrics t c team_metrics_mset [OF assms])
  next
    case False
    then show ?thesis
      by (simp add: lookup_metric_outside t c)
  qed
qed

theorem row_order_irrelevant_witness:
  "mset (rev two_groups) = mset two_groups \<and>
   lookup_metric (metrics (rev two_groups)) (Some ''Group B'') (Some ''IRAN'') =
     Some \<lparr>Team = Some ''IRAN'', Total_Attempts = 21, On_Target_pct = Fin (double (2381 / 50)),
           Goals = 8, Assists = 7\<rparr>"
proof -
  have p: "mset (rev two_groups) = mset two_groups"
    by simp
  have "team_metrics two_groups (Some ''Group B'') (Some ''IRAN'') =
      \<lparr>Team = Some ''IRAN'', Total_Attempts = 21, On_Target_pct = Fin (double (2381 / 50)),
       Goals = 8, Assists = 7\<rparr>"
    by code_simp
  moreover have "lookup_metric (metrics two_groups) (Some ''Group B'') (Some ''IRAN'') =
      Some (team_metrics two_groups (Some ''Group B'') (Some ''IRAN''))"
    by (rule lookup_metric_metrics)
      (simp_all add: set_categories set_teams two_groups_def match_row_def)
  ultimately have v: "lookup_metric (metrics two_groups) (Some ''Group B'') (Some ''IRAN'') =
      Some \<lparr>Team = Some ''IRAN'', Total_Attempts = 21, On_Target_pct = Fin (double (2381 / 50)),
            Goals = 8, Assists = 7\<rparr>"
    by simp
  from row_order_irrelevant [OF p, of "Some ''Group B''" "Some ''IRAN''"] v p show ?thesis
    by simp
qed

section \<open>The cost of the aggregation\<close>

lemma team_metrics_run_result:
  assumes "16 * length df \<le> budget"
  shows "\<exists>left. team_metrics_run df cat team budget = Some (team_metrics df cat team, left) \<and>
           left + 4 * length df \<le> budget \<and> budget \<le> left + 16 * length df"
proof -
  let ?td = "team_data df team"
  let ?cd = "category_data df team cat"
  have td: "length ?td \<le> length df"
    by (simp add: team_data_def)
  have cd: "length ?cd \<le> length ?td"
    by (simp add: category_data_def)
  show ?thesis
  proof (cases "?cd = []")
    case True
    have "team_metrics_run df cat team budget =
        Some (team_metrics df cat team, budget - 4 * length df - 2 * length ?td)"
      using assms td True
      by (simp add: team_metrics_run_def and_then_def reading_def returning_def team_metrics_def
          team_data_def [symmetric] category_data_def [symmetric] Let_def)
    then show ?thesis using assms td by auto
  next
    case False
    have "team_metrics_run df cat team budget =
        Some (team_metrics df cat team,
          budget - 4 * length df - 2 * length ?td - 2 * length ?cd - 4 * length ?cd
            - 2 * length ?cd - 2 * length ?cd)"
      using assms td cd False
      apply (simp add: team_metrics_run_def and_then_def reading_def returning_def team_metrics_def
          team_data_def [symmetric] category_data_def [symmetric] Let_def)
      apply arith
      done
    then show ?thesis using assms td cd by auto
  qed
qed


lemma teams_loop_result:
  assumes "16 * (length ts * length df) \<le> budget"
  shows "\<exists>left. teams_loop df cat ts budget = Some (map (team_metrics df cat) ts, left) \<and>
           left + 4 * (length ts * length df) \<le> budget \<and>
           budget \<le> left + 16 * (length ts * length df)"
  using assms
proof (induction ts arbitrary: budget)
  case Nil
  then show ?case by simp
next
  case (Cons team ts)
  from Cons.prems have "16 * length df \<le> budget"
    by simp
  from team_metrics_run_result [OF this, of cat team]
  obtain left where 1: "team_metrics_run df cat team budget = Some (team_metrics df cat team, left)"
    and 2: "left + 4 * length df \<le> budget" and 3: "budget \<le> left + 16 * length df"
    by blast
  from Cons.prems 3 have "16 * (length ts * length df) \<le> left"
    by simp
  from Cons.IH [OF this]
  obtain left' where 4: "teams_loop df cat ts left = Some (map (team_metrics df cat) ts, left')"
    and 5: "left' + 4 * (length ts * length df) \<le> left"
    and 6: "left \<le> left' + 16 * (length ts * length df)"
    by blast
  have "teams_loop df cat (team # ts) budget = Some (map (team_metrics df cat) (team # ts), left')"
    by (simp add: 1 4)
  moreover have "left' + 4 * (length (team # ts) * length df) \<le> budget"
    using 2 5 by simp
  moreover have "budget \<le> left' + 16 * (length (team # ts) * length df)"
    using 3 6 by simp
  ultimately show ?case by blast
qed

lemma categories_loop_result:
  assumes "16 * (length cs * (length ts * length df)) \<le> budget"
  shows "\<exists>left. categories_loop df ts cs budget =
             Some (map (\<lambda>cat. (cat, map (team_metrics df cat) ts)) cs, left) \<and>
           left + 4 * (length cs * (length ts * length df)) \<le> budget \<and>
           budget \<le> left + 16 * (length cs * (length ts * length df))"
  using assms
proof (induction cs arbitrary: budget)
  case Nil
  then show ?case by simp
next
  case (Cons cat cs)
  from Cons.prems have "16 * (length ts * length df) \<le> budget"
    by simp
  from teams_loop_result [OF this, of cat]
  obtain left where 1: "teams_loop df cat ts budget = Some (map (team_metrics df cat) ts, left)"
    and 2: "left + 4 * (length ts * length df) \<le> budget"
    and 3: "budget \<le> left + 16 * (length ts * length df)"
    by blast
  from Cons.prems 3 have "16 * (length cs * (length ts * length df)) \<le> left"
    by simp
  from Cons.IH [OF this]
  obtain left' where 4: "categories_loop df ts cs left =
        Some (map (\<lambda>cat. (cat, map (team_metrics df cat) ts)) cs, left')"
    and 5: "left' + 4 * (length cs * (length ts * length df)) \<le> left"
    and 6: "left \<le> left' + 16 * (length cs * (length ts * length df))"
    by blast
  have "categories_loop df ts (cat # cs) budget =
      Some (map (\<lambda>cat. (cat, map (team_metrics df cat) ts)) (cat # cs), left')"
    by (simp add: 1 4)
  moreover have "left' + 4 * (length (cat # cs) * (length ts * length df)) \<le> budget"
    using 2 5 by simp
  moreover have "budget \<le> left' + 16 * (length (cat # cs) * (length ts * length df))"
    using 3 6 by simp
  ultimately show ?case by blast
qed

text \<open>
  C7. The aggregation ends on every table, in time proportional to categories \<times> teams
  \<times> rows: run on a budget of at least 16 row visits for every combination of a category,
  a team and a row of the table, the loops of lines 41 to 55 return the dictionary of
  metrics, and they use at least 4 and at most 16 visits for every such combination.
\<close>

theorem aggregation_within_budget:
  assumes "16 * (length (categories df) * (length (teams df) * length df)) \<le> budget"
  shows "\<exists>left. metrics_run df budget = Some (metrics df, left) \<and>
           left + 4 * (length (categories df) * (length (teams df) * length df)) \<le> budget \<and>
           budget \<le> left + 16 * (length (categories df) * (length (teams df) * length df))"
  using categories_loop_result [OF assms]
  by (simp add: metrics_run_def metrics_def category_metrics_def)

theorem aggregation_within_budget_witness:
  "length (categories no_attempts) = 1 \<and> length (teams no_attempts) = 2 \<and>
   length no_attempts = 1 \<and> metrics_run no_attempts 32 = Some (metrics no_attempts, 0)"
proof -
  have c: "length (categories no_attempts) = 1" and t: "length (teams no_attempts) = 2"
    and n: "length no_attempts = 1"
    by code_simp+
  have b: "16 * (length (categories no_attempts) * (length (teams no_attempts) * length no_attempts))
      \<le> (32 :: nat)"
    by (simp add: c t n)
  have r: "metrics_run no_attempts 32 = Some (metrics no_attempts, 0)"
    by code_simp
  from aggregation_within_budget [OF b] r c t n show ?thesis
    by simp
qed

section \<open>The required columns\<close>

lemma missing_columns_empty_iff:
  "missing_columns cols = [] \<longleftrightarrow> set required_columns \<subseteq> set cols"
  by (auto simp: missing_columns_def filter_empty_conv)

lemma set_missing_columns: "set (missing_columns cols) = set required_columns - set cols"
  by (auto simp: missing_columns_def)

lemma distinct_required_columns: "distinct required_columns"
  by (simp add: required_columns_def)

text \<open>
  The check of lines 20 to 28 by itself, run on any data frame once its columns are
  renamed (every space replaced by an underscore): when all sixteen required columns are
  among the columns it raises nothing; otherwise it raises the error that lists the
  required columns that are absent, each once, in the order of the list, and no other
  column.
\<close>

theorem required_columns_check:
  "then_stage (rename_columns st) check_required_columns =
     (let renamed = st\<lparr>df_columns := map replace_spaces (df_columns st)\<rparr>;
          absent = filter (\<lambda>col. col \<notin> set (df_columns renamed)) required_columns
      in if set required_columns \<subseteq> set (df_columns renamed) then (renamed, None)
         else (renamed, Some (MissingColumns absent))) \<and>
   length required_columns = 16 \<and> distinct required_columns \<and>
   (set (filter (\<lambda>col. col \<notin> set cols) required_columns) = set required_columns - set cols)"
proof -
  have "length required_columns = 16"
    by (simp add: required_columns_def)
  moreover have "then_stage (rename_columns st) check_required_columns =
     (let renamed = st\<lparr>df_columns := map replace_spaces (df_columns st)\<rparr>;
          absent = filter (\<lambda>col. col \<notin> set (df_columns renamed)) required_columns
      in if set required_columns \<subseteq> set (df_columns renamed) then (renamed, None)
         else (renamed, Some (MissingColumns absent)))"
    unfolding rename_columns_def then_stage_def check_required_columns_def Let_def
      missing_columns_empty_iff
    by (simp add: missing_columns_def)
  moreover have "set (filter (\<lambda>col. col \<notin> set cols) required_columns) = set required_columns - set cols"
    by auto
  ultimately show ?thesis
    using distinct_required_columns by blast
qed

theorem required_columns_check_witness:
  "then_stage (rename_columns (read_csv file_without_hour)) check_required_columns =
     ((read_csv file_without_hour)\<lparr>df_columns := remove1 ''hour'' (map replace_spaces fifa_header)\<rparr>,
      Some (MissingColumns [''hour''])) \<and>
   then_stage (rename_columns (read_csv fifa_file)) check_required_columns =
     ((read_csv fifa_file)\<lparr>df_columns := map replace_spaces fifa_header\<rparr>, None)"
proof -
  have a: "(let renamed = (read_csv file_without_hour)\<lparr>df_columns := map replace_spaces (df_columns (read_csv file_without_hour))\<rparr>;
          absent = filter (\<lambda>col. col \<notin> set (df_columns renamed)) required_columns
      in if set required_columns \<subseteq> set (df_columns renamed) then (renamed, None)
         else (renamed, Some (MissingColumns absent))) =
      ((read_csv file_without_hour)\<lparr>df_columns := remove1 ''hour'' (map replace_spaces fifa_header)\<rparr>,
      Some (MissingColumns [''hour'']))"
    by code_simp
  have b: "(let renamed = (read_csv fifa_file)\<lparr>df_columns := map replace_spaces (df_columns (read_csv fifa_file))\<rparr>;
          absent = filter (\<lambda>col. col \<notin> set (df_columns renamed)) required_columns
      in if set required_columns \<subseteq> set (df_columns renamed) then (renamed, None)
         else (renamed, Some (MissingColumns absent))) =
      ((read_csv fifa_file)\<lparr>df_columns := map replace_spaces fifa_header\<rparr>, None)"
    by code_simp
  from required_columns_check [of "read_csv file_without_hour"]
    required_columns_check [of "read_csv fifa_file"]
  show ?thesis
    unfolding a b by blast
qed

text \<open>
  C4 asks that the program raises the error that lists the absent columns exactly when a
  required column is missing from the table. \<^verbatim>\<open>date\<close> is one of the sixteen, and the program
  never reports it: the check, run on the columns of a file without \<^verbatim>\<open>date\<close> and \<^verbatim>\<open>hour\<close>,
  lists both, but the run of the script on that file ends at line 11, where
  \<^verbatim>\<open>df['date']\<close> raises a KeyError, before the check is reached.
\<close>

theorem date_is_never_reported:
  "snd (then_stage (rename_columns (read_csv file_without_date_and_hour)) check_required_columns) =
     Some (MissingColumns [''date'', ''hour'']) \<and>
   main strptime sort_values float file_without_date_and_hour =
     (read_csv file_without_date_and_hour, Some (KeyError ''date''))"
proof -
  have "snd (then_stage (rename_columns (read_csv file_without_date_and_hour))
      check_required_columns) = Some (MissingColumns [''date'', ''hour''])"
    by code_simp
  moreover have "''date'' \<notin> set (df_columns (read_csv file_without_date_and_hour))"
    by code_simp
  then have "parse_dates strptime (read_csv file_without_date_and_hour) =
      (read_csv file_without_date_and_hour, Some (KeyError ''date''))"
    by (simp add: parse_dates_def)
  then have "main strptime sort_values float file_without_date_and_hour =
      (read_csv file_without_date_and_hour, Some (KeyError ''date''))"
    by (simp add: main_def then_stage_def)
  ultimately show ?thesis by simp
qed

section \<open>The order of the stages\<close>

text \<open>
  C5 asks that a file without a required column ends the run with the error of the
  check, before anything is transformed. \<^verbatim>\<open>date\<close> is a required column, but line 11 reads
  \<^verbatim>\<open>df['date']\<close> before the check of line 26: a file without that column ends the run
  with a KeyError in the state in which it was loaded, although the check would list
  \<^verbatim>\<open>date\<close> as missing.
\<close>

theorem missing_date_is_a_key_error:
  "missing_columns (map replace_spaces (with_ts (csv_columns file_without_date))) = [''date''] \<and>
   main strptime sort_values float file_without_date = (read_csv file_without_date, Some (KeyError ''date''))"
proof -
  have "missing_columns (map replace_spaces (with_ts (csv_columns file_without_date))) = [''date'']"
    by code_simp
  moreover have "''date'' \<notin> set (df_columns (read_csv file_without_date))"
    by code_simp
  then have "parse_dates strptime (read_csv file_without_date) =
      (read_csv file_without_date, Some (KeyError ''date''))"
    by (simp add: parse_dates_def)
  then have "main strptime sort_values float file_without_date = (read_csv file_without_date, Some (KeyError ''date''))"
    by (simp add: main_def then_stage_def)
  ultimately show ?thesis by simp
qed

section \<open>The possession columns\<close>

lemma astype_float_fails:
  "\<not> list_all (parses float) cells \<Longrightarrow> \<exists>e. astype_float float (map rstrip_cell cells) = Inl e"
proof (induction cells)
  case Nil
  then show ?case by simp
next
  case (Cons c cells)
  show ?case
  proof (cases c)
    case (Str s)
    with Cons show ?thesis by (auto split: option.splits sum.splits)
  next
    case (Num x)
    with Cons show ?thesis by (auto split: option.splits sum.splits)
  qed
qed

lemma astype_float_succeeds:
  "list_all (parses float) cells \<Longrightarrow>
   astype_float float (map rstrip_cell cells) = Inr (map (converted float) cells)"
proof (induction cells)
  case Nil
  then show ?case by simp
next
  case (Cons c cells)
  then show ?case by (cases c) auto
qed

lemma percent_to_float_convertible:
  "convertible float cells \<Longrightarrow> percent_to_float float cells = Inr (map (converted float) cells)"
  by (auto simp: convertible_def percent_to_float_def str_rstrip_def astype_float_succeeds)

lemma percent_to_float_not_convertible:
  "\<not> convertible float cells \<Longrightarrow> \<exists>e. percent_to_float float cells = Inl e"
  using astype_float_fails [of float cells]
  by (auto simp: convertible_def percent_to_float_def str_rstrip_def)


lemma convert_column_ok:
  assumes "convertible float (map get (df_rows st))"
  shows "convert_column get put float st =
     (st\<lparr>df_rows := map (\<lambda>r. put r (Num (converted float (get r)))) (df_rows st)\<rparr>, None)"
proof -
  have "map2 (\<lambda>r x. put r (Num x)) rs (map (converted float) (map get rs)) =
      map (\<lambda>r. put r (Num (converted float (get r)))) rs" for rs
    by (induction rs) simp_all
  then show ?thesis
    by (simp add: convert_column_def percent_to_float_convertible [OF assms])
qed

lemma convert_column_fails:
  assumes "\<not> convertible float (map get (df_rows st))"
  shows "\<exists>e. convert_column get put float st = (st, Some e)"
  using percent_to_float_not_convertible [OF assms]
  by (auto simp: convert_column_def)

lemma preprocessing_ok:
  assumes "convertible float (map possession_team1 (df_rows st))"
    and "convertible float (map possession_team2 (df_rows st))"
    and "convertible float (map possession_in_contest (df_rows st))"
  shows "preprocessing float st = (st\<lparr>df_rows := map (possession_converted float) (df_rows st)\<rparr>, None)"
proof -
  let ?p1 = "\<lambda>r. r\<lparr>possession_team1 := Num (converted float (possession_team1 r))\<rparr>"
  let ?p2 = "\<lambda>r. r\<lparr>possession_team2 := Num (converted float (possession_team2 r))\<rparr>"
  let ?s1 = "st\<lparr>df_rows := map ?p1 (df_rows st)\<rparr>"
  let ?s2 = "?s1\<lparr>df_rows := map ?p2 (df_rows ?s1)\<rparr>"
  let ?s3 = "?s2\<lparr>df_rows := map (\<lambda>r. r\<lparr>possession_in_contest :=
      Num (converted float (possession_in_contest r))\<rparr>) (df_rows ?s2)\<rparr>"
  have 1: "convert_column possession_team1 (\<lambda>r c. r\<lparr>possession_team1 := c\<rparr>) float st = (?s1, None)"
    using assms(1) by (rule convert_column_ok)
  have "convertible float (map possession_team2 (df_rows ?s1))"
    using assms(2) by (simp add: comp_def)
  then have 2: "convert_column possession_team2 (\<lambda>r c. r\<lparr>possession_team2 := c\<rparr>) float ?s1 = (?s2, None)"
    by (rule convert_column_ok)
  have "convertible float (map possession_in_contest (df_rows ?s2))"
    using assms(3) by (simp add: comp_def)
  then have 3: "convert_column possession_in_contest (\<lambda>r c. r\<lparr>possession_in_contest := c\<rparr>) float ?s2 =
      (?s3, None)"
    by (rule convert_column_ok)
  have "preprocessing float st =
      then_stage (then_stage (?s1, None)
        (convert_column possession_team2 (\<lambda>r c. r\<lparr>possession_team2 := c\<rparr>) float))
        (convert_column possession_in_contest (\<lambda>r c. r\<lparr>possession_in_contest := c\<rparr>) float)"
    by (simp only: preprocessing_def 1)
  also have "\<dots> = then_stage (?s2, None)
        (convert_column possession_in_contest (\<lambda>r c. r\<lparr>possession_in_contest := c\<rparr>) float)"
    by (simp only: then_stage_def prod.case option.case 2)
  also have "\<dots> = (?s3, None)"
    by (simp only: then_stage_def prod.case option.case 3)
  also have "?s3 = st\<lparr>df_rows := map (possession_converted float) (df_rows st)\<rparr>"
    by (simp add: possession_converted_def comp_def)
  finally show ?thesis .
qed


lemma then_stage_error: "then_stage (st, Some e) next_stage = (st, Some e)"
  by (simp add: then_stage_def)

lemma then_stage_ok: "then_stage (st, None) next_stage = next_stage st"
  by (simp add: then_stage_def)

lemma preprocessing_fails:
  assumes "\<not> (convertible float (map possession_team1 (df_rows st)) \<and>
      convertible float (map possession_team2 (df_rows st)) \<and>
      convertible float (map possession_in_contest (df_rows st)))"
  shows "\<exists>e. snd (preprocessing float st) = Some e"
proof (cases "convertible float (map possession_team1 (df_rows st))")
  case False
  then obtain e where "convert_column possession_team1 (\<lambda>r c. r\<lparr>possession_team1 := c\<rparr>) float st = (st, Some e)"
    using convert_column_fails by blast
  then show ?thesis
    by (simp add: preprocessing_def then_stage_error)
next
  case c1: True
  let ?s1 = "st\<lparr>df_rows := map (\<lambda>r. r\<lparr>possession_team1 := Num (converted float (possession_team1 r))\<rparr>) (df_rows st)\<rparr>"
  have 1: "convert_column possession_team1 (\<lambda>r c. r\<lparr>possession_team1 := c\<rparr>) float st = (?s1, None)"
    using c1 by (rule convert_column_ok)
  show ?thesis
  proof (cases "convertible float (map possession_team2 (df_rows st))")
    case False
    then have "\<not> convertible float (map possession_team2 (df_rows ?s1))"
      by (simp add: comp_def)
    then obtain e where "convert_column possession_team2 (\<lambda>r c. r\<lparr>possession_team2 := c\<rparr>) float ?s1 = (?s1, Some e)"
      using convert_column_fails by blast
    then show ?thesis
      by (simp only: preprocessing_def 1 then_stage_ok then_stage_error snd_conv) blast
  next
    case c2: True
    let ?s2 = "?s1\<lparr>df_rows := map (\<lambda>r. r\<lparr>possession_team2 := Num (converted float (possession_team2 r))\<rparr>) (df_rows ?s1)\<rparr>"
    have "convertible float (map possession_team2 (df_rows ?s1))"
      using c2 by (simp add: comp_def)
    then have 2: "convert_column possession_team2 (\<lambda>r c. r\<lparr>possession_team2 := c\<rparr>) float ?s1 = (?s2, None)"
      by (rule convert_column_ok)
    from assms c1 c2 have "\<not> convertible float (map possession_in_contest (df_rows st))"
      by simp
    then have "\<not> convertible float (map possession_in_contest (df_rows ?s2))"
      by (simp add: comp_def)
    then obtain e where "convert_column possession_in_contest (\<lambda>r c. r\<lparr>possession_in_contest := c\<rparr>) float ?s2 = (?s2, Some e)"
      using convert_column_fails by blast
    then show ?thesis
      by (simp only: preprocessing_def 1 2 then_stage_ok then_stage_error snd_conv) blast
  qed
qed

text \<open>
  C10, as the specification states it, fails: the step also succeeds on a text column
  with an empty cell. The cell is no string; it stays NaN.
\<close>

theorem possession_gap_counterexample:
  "snd (preprocessing float_of_digits (loaded possession_gap)) = None \<and>
   \<not> list_all (percent_string float_of_digits) (map possession_team1 possession_gap)"
  by code_simp

text \<open>
  C10, amended. The step converts each of the three possession columns, and nothing
  else: a string becomes the float its form without trailing percent signs parses to, a
  cell that is no string becomes NaN. It succeeds exactly when each of the three columns
  has no rows or holds at least one string, and every string in them parses once
  stripped; otherwise it raises.
\<close>

theorem possession_preprocessing:
  "(snd (preprocessing float st) = None \<longleftrightarrow>
      convertible float (map possession_team1 (df_rows st)) \<and>
      convertible float (map possession_team2 (df_rows st)) \<and>
      convertible float (map possession_in_contest (df_rows st))) \<and>
   (snd (preprocessing float st) = None \<longrightarrow>
      fst (preprocessing float st) =
        st\<lparr>df_rows := map (possession_converted float) (df_rows st)\<rparr>)"
proof (cases "convertible float (map possession_team1 (df_rows st)) \<and>
      convertible float (map possession_team2 (df_rows st)) \<and>
      convertible float (map possession_in_contest (df_rows st))")
  case True
  then have "preprocessing float st =
      (st\<lparr>df_rows := map (possession_converted float) (df_rows st)\<rparr>, None)"
    by (simp add: preprocessing_ok)
  with True show ?thesis by simp
next
  case False
  from preprocessing_fails [OF this] obtain e where "snd (preprocessing float st) = Some e" ..
  with False show ?thesis by simp
qed

theorem possession_preprocessing_witness:
  "preprocessing float_of_digits (loaded possession_gap) =
     (loaded
       [match_row (Num (Fin 42)) ''QATAR'' ''ECUADOR'' ''Group A'' (5, 6) (0, 3) (0, 2) (0, 1),
        (match_row (Num (Fin 58)) ''ENGLAND'' ''IRAN'' ''Group B'' (13, 8) (7, 3) (6, 2) (6, 1))
          \<lparr>possession_team1 := Num NaN\<rparr>], None)"
proof -
  have c: "convertible float_of_digits (map possession_team1 (df_rows (loaded possession_gap))) \<and>
      convertible float_of_digits (map possession_team2 (df_rows (loaded possession_gap))) \<and>
      convertible float_of_digits (map possession_in_contest (df_rows (loaded possession_gap)))"
    by code_simp
  have r: "(loaded possession_gap)\<lparr>df_rows := map (possession_converted float_of_digits) (df_rows (loaded possession_gap))\<rparr> =
     loaded
       [match_row (Num (Fin 42)) ''QATAR'' ''ECUADOR'' ''Group A'' (5, 6) (0, 3) (0, 2) (0, 1),
        (match_row (Num (Fin 58)) ''ENGLAND'' ''IRAN'' ''Group B'' (13, 8) (7, 3) (6, 2) (6, 1))
          \<lparr>possession_team1 := Num NaN\<rparr>]"
    by code_simp
  from possession_preprocessing [of float_of_digits "loaded possession_gap"] c
  have "snd (preprocessing float_of_digits (loaded possession_gap)) = None"
    and "fst (preprocessing float_of_digits (loaded possession_gap)) =
      (loaded possession_gap)\<lparr>df_rows := map (possession_converted float_of_digits) (df_rows (loaded possession_gap))\<rparr>"
    by blast+
  then show ?thesis
    unfolding r by (simp add: prod_eq_iff)
qed

section \<open>The check ends the run before the preprocessing\<close>

lemma length_to_datetime: "to_datetime strptime cells = Inr ts \<Longrightarrow> length ts = length cells"
proof (induction cells arbitrary: ts)
  case Nil
  then show ?case by simp
next
  case (Cons c cells)
  then show ?case
    by (cases c) (auto split: sum.splits option.splits)
qed

lemma mset_insert_by_ts: "mset (insert_by_ts x ys) = add_mset x (mset ys)"
  by (induction ys) auto

lemma mset_insertion_sort: "mset (insertion_sort xs) = mset xs"
  by (induction xs) (simp_all add: insertion_sort_def mset_insert_by_ts)

lemma mset_sorted_rows:
  assumes "length ts = length rs" and "mset (sort_values (zip ts rs)) = mset (zip ts rs)"
  shows "mset (map snd (sort_values (zip ts rs))) = mset rs"
proof -
  have "mset (map snd (sort_values (zip ts rs))) = image_mset snd (mset (sort_values (zip ts rs)))"
    by simp
  also have "\<dots> = image_mset snd (mset (zip ts rs))"
    by (simp only: assms(2))
  also have "\<dots> = mset (map snd (zip ts rs))"
    by simp
  also have "\<dots> = mset rs"
    using assms(1) by simp
  finally show ?thesis .
qed

text \<open>
  A file that has the column \<^verbatim>\<open>date\<close>, whose dates parse, and that lacks a required column
  once the columns are renamed: the run ends with the error of the check, which lists the
  absent columns; the dictionary of metrics is not bound, and the rows are the rows of the
  file, reordered by the sort (a sort returns a permutation) and otherwise untouched.
\<close>

theorem check_stops_the_run:
  assumes "\<And>xs. mset (sort_values xs) = mset xs"
    and "''date'' \<in> set (csv_columns file)"
    and "to_datetime strptime (map date (csv_rows file)) = Inr ts"
    and "\<not> set required_columns \<subseteq> replace_spaces ` set (with_ts (csv_columns file))"
  shows "\<exists>st. main strptime sort_values float file =
           (st, Some (MissingColumns (missing_columns (map replace_spaces (with_ts (csv_columns file)))))) \<and>
         metrics_dict st = None \<and> mset (df_rows st) = mset (csv_rows file)"
proof -
  let ?s1 = "(read_csv file)\<lparr>df_columns := with_ts (csv_columns file), df_ts := ts\<rparr>"
  let ?sorted = "sort_values (zip ts (csv_rows file))"
  let ?s2 = "?s1\<lparr>df_rows := map snd ?sorted, df_ts := map fst ?sorted\<rparr>"
  let ?s3 = "?s2\<lparr>df_columns := map replace_spaces (with_ts (csv_columns file))\<rparr>"
  let ?ms = "missing_columns (map replace_spaces (with_ts (csv_columns file)))"
  have 1: "parse_dates strptime (read_csv file) = (?s1, None)"
    using assms(2,3) by (simp add: parse_dates_def read_csv_def)
  have 2: "sort_by_ts sort_values ?s1 = (?s2, None)"
    by (simp add: sort_by_ts_def read_csv_def Let_def)
  have 3: "rename_columns ?s2 = (?s3, None)"
    by (simp add: rename_columns_def)
  have "?ms \<noteq> []"
    using assms(4) by (simp add: missing_columns_empty_iff)
  then have 4: "check_required_columns ?s3 = (?s3, Some (MissingColumns ?ms))"
    by (simp add: check_required_columns_def)
  have "main strptime sort_values float file = (?s3, Some (MissingColumns ?ms))"
    by (simp only: main_def 1 2 3 4 then_stage_ok then_stage_error)
  moreover have "metrics_dict ?s3 = None"
    by (simp add: read_csv_def)
  moreover have "mset (df_rows ?s3) = mset (csv_rows file)"
  proof -
    have "length ts = length (csv_rows file)"
      using length_to_datetime [OF assms(3)] by simp
    then have "mset (map snd ?sorted) = mset (csv_rows file)"
      using assms(1) by (rule mset_sorted_rows)
    moreover have "df_rows ?s3 = map snd ?sorted"
      by simp
    ultimately show ?thesis
      by (simp only:)
  qed
  ultimately show ?thesis by blast
qed

theorem check_stops_the_run_witness:
  "\<exists>st. main strptime_dmy insertion_sort float_of_digits file_without_hour = (st, Some (MissingColumns [''hour''])) \<and>
     metrics_dict st = None \<and> mset (df_rows st) = mset two_groups"
proof -
  have d: "''date'' \<in> set (csv_columns file_without_hour)"
    by code_simp
  have t: "to_datetime strptime_dmy (map date (csv_rows file_without_hour)) =
      Inr [Some 20221120, Some 20221120]"
    by code_simp
  have n: "\<not> set required_columns \<subseteq> replace_spaces ` set (with_ts (csv_columns file_without_hour))"
    by code_simp
  have m: "missing_columns (map replace_spaces (with_ts (csv_columns file_without_hour))) = [''hour'']"
    by code_simp
  have r: "csv_rows file_without_hour = two_groups"
    by (simp add: file_without_hour_def)
  from check_stops_the_run [OF mset_insertion_sort d t n, of float_of_digits] show ?thesis
    unfolding m r .
qed

end
